theory Spec2Isabelle
  imports Main
begin

section \<open>The task store of the to-do backend\<close>

text \<open>
  A shallow embedding of the Express backend (the server file, 272 lines): the two file
  helpers \<^verbatim>\<open>readTasks\<close> and \<^verbatim>\<open>writeTasks\<close> and the five route handlers over
  \<^verbatim>\<open>/api/tasks\<close>. Everything a handler takes from outside is an argument: the request
  (the \<^verbatim>\<open>text\<close> field of the body, the \<^verbatim>\<open>:id\<close> path parameter), the readings of the
  clock and of the random generator, and the world (the tasks file and the outcomes of
  the file-system calls). A handler returns the response it sends and the world it leaves.
\<close>

subsection \<open>Values\<close>

text \<open>
  JSON values, as \<^verbatim>\<open>express.json()\<close> hands them to a handler and as \<^verbatim>\<open>res.json\<close> sends
  them. An object is the list of its fields in the order the source writes them. Numbers
  are integers: the handlers only send counts, and a number coming in is only tested for
  being zero and for not being a string.
\<close>

datatype json =
    JNull
  | JBool bool
  | JNum int
  | JStr string
  | JArr "json list"
  | JObj "(string \<times> json) list"

text \<open>Reading a field of an object; \<open>None\<close> is JavaScript's \<^verbatim>\<open>undefined\<close>.\<close>

fun field :: "string \<Rightarrow> json \<Rightarrow> json option" where
  "field k (JObj fs) = map_of fs k"
| "field k _ = None"

text \<open>
  A task as the file and the responses hold it. The two timestamps are the strings
  \<^verbatim>\<open>new Date().toISOString()\<close> returned, kept as they are.
\<close>

record task =
  task_id :: string
  task_text :: string
  completed :: bool
  createdAt :: string
  updatedAt :: string

definition task_json :: "task \<Rightarrow> json" where
  "task_json t = JObj
     [(''id'', JStr (task_id t)),
      (''text'', JStr (task_text t)),
      (''completed'', JBool (completed t)),
      (''createdAt'', JStr (createdAt t)),
      (''updatedAt'', JStr (updatedAt t))]"

record response =
  status :: nat
  body :: json

subsection \<open>Strings\<close>

text \<open>
  \<^verbatim>\<open>String.prototype.trim\<close> strips white space and line terminators from both ends. A
  \<open>char\<close> is one code unit below U+0100; of those, trim strips TAB, LF, VT, FF, CR, SPACE
  and NBSP. (The code units from U+0100 on that trim also strips, such as U+2028 and
  U+FEFF, have no \<open>char\<close>.)
\<close>

definition isWhiteSpace :: "char \<Rightarrow> bool" where
  "isWhiteSpace c \<longleftrightarrow> c \<in> set [CHR 0x09, CHR 0x0A, CHR 0x0B, CHR 0x0C, CHR 0x0D, CHR 0x20, CHR 0xA0]"

definition trim :: "string \<Rightarrow> string" where
  "trim s = rev (dropWhile isWhiteSpace (rev (dropWhile isWhiteSpace s)))"

text \<open>\<^verbatim>\<open>Date.now().toString()\<close>: the decimal digits of a count of milliseconds.\<close>

definition digit :: "nat \<Rightarrow> char" where
  "digit d = ''0123456789'' ! d"

function toString10 :: "nat \<Rightarrow> string" where
  "toString10 n = (if n < 10 then [digit n] else toString10 (n div 10) @ [digit (n mod 10)])"
  by pat_completeness auto
termination
  by (relation "measure id") auto

declare toString10.simps [simp del]

subsection \<open>The tasks file\<close>

text \<open>
  What \<^verbatim>\<open>readTasks\<close> can meet at \<^verbatim>\<open>TASKS_FILE\<close>. The text of the file is kept by what
  the source does with it: \<open>Blank\<close> is a text with \<^verbatim>\<open>data.trim()\<close> empty, \<open>Garbage e\<close> a
  text on which \<^verbatim>\<open>JSON.parse\<close> throws an error with message \<open>e\<close>, and \<open>Doc ts\<close> the
  text of an array of tasks, which is what \<^verbatim>\<open>writeTasks\<close> writes: \<^verbatim>\<open>JSON.parse\<close> gives
  back the array that \<^verbatim>\<open>JSON.stringify\<close> was given. \<open>Other v\<close> is a text that parses to
  the value \<open>v\<close>, which is not an array: \<^verbatim>\<open>null\<close>, a boolean, a number, a string or an
  object. (An array with an element that is not a task object is outside the model.)
\<close>

datatype non_array =
    NNull
  | NBool bool
  | NNum int
  | NStr string
  | NObj "(string \<times> json) list"

fun json_of :: "non_array \<Rightarrow> json" where
  "json_of NNull = JNull"
| "json_of (NBool b) = JBool b"
| "json_of (NNum n) = JNum n"
| "json_of (NStr s) = JStr s"
| "json_of (NObj fs) = JObj fs"

datatype content = Blank | Garbage string | Doc "task list" | Other non_array

text \<open>What \<^verbatim>\<open>JSON.parse\<close> returns, and with it \<^verbatim>\<open>readTasks\<close>: an array of tasks or another value.\<close>

datatype parsed = Array "task list" | NotArray non_array

datatype file_state =
    Missing              \<comment> \<open>\<^verbatim>\<open>fs.access\<close> rejects\<close>
  | Unreadable string    \<comment> \<open>\<^verbatim>\<open>fs.access\<close> resolves, \<^verbatim>\<open>fs.readFile\<close> rejects with this message\<close>
  | Present content

text \<open>
  The world of a request: the file, the outcomes of the coming \<^verbatim>\<open>fs.writeFile\<close> calls
  (one entry a call, \<open>Some e\<close> a rejection with message \<open>e\<close>; past the end of the list
  every call resolves), and the number of \<^verbatim>\<open>fs.writeFile\<close> calls made so far. A call
  that rejects leaves the file as it was.
\<close>

record world =
  tasks_file :: file_state
  wfaults :: "string option list"
  writes :: nat

definition fs_access :: "world \<Rightarrow> string + unit" where
  "fs_access w = (case tasks_file w of Missing \<Rightarrow> Inl ''ENOENT'' | _ \<Rightarrow> Inr ())"

definition fs_readFile :: "world \<Rightarrow> string + content" where
  "fs_readFile w =
     (case tasks_file w of
        Missing \<Rightarrow> Inl ''ENOENT''
      | Unreadable e \<Rightarrow> Inl e
      | Present c \<Rightarrow> Inr c)"

definition fs_writeFile :: "task list \<Rightarrow> world \<Rightarrow> (string + unit) \<times> world" where
  "fs_writeFile ts w =
     (case wfaults w of
        [] \<Rightarrow> (Inr (), w\<lparr>tasks_file := Present (Doc ts), writes := Suc (writes w)\<rparr>)
      | None # fs \<Rightarrow>
          (Inr (), w\<lparr>tasks_file := Present (Doc ts), wfaults := fs, writes := Suc (writes w)\<rparr>)
      | Some e # fs \<Rightarrow> (Inl e, w\<lparr>wfaults := fs, writes := Suc (writes w)\<rparr>))"

definition JSON_parse :: "content \<Rightarrow> string + parsed" where
  "JSON_parse c =
     (case c of
        Blank \<Rightarrow> Inl ''Unexpected end of JSON input''
      | Garbage e \<Rightarrow> Inl e
      | Doc ts \<Rightarrow> Inr (Array ts)
      | Other v \<Rightarrow> Inr (NotArray v))"

text \<open>
  The messages of the \<^verbatim>\<open>TypeError\<close> that a route throws when what \<^verbatim>\<open>readTasks\<close> returned
  is not an array: reading a property of \<^verbatim>\<open>null\<close>, and calling \<^verbatim>\<open>tasks.push\<close>,
  \<^verbatim>\<open>tasks.findIndex\<close> or \<^verbatim>\<open>tasks.filter\<close> on a value that has no such method.
\<close>

definition nullProperty :: "string \<Rightarrow> string" where
  "nullProperty name =
     ''Cannot read properties of null (reading '' @ [CHR 0x27] @ name @ [CHR 0x27] @ '')''"

definition notFunction :: "string \<Rightarrow> string" where
  "notFunction name = ''tasks.'' @ name @ '' is not a function''"

definition callError :: "non_array \<Rightarrow> string \<Rightarrow> string" where
  "callError v name = (if v = NNull then nullProperty name else notFunction name)"

subsection \<open>readTasks and writeTasks\<close>

text \<open>
  The body of the outer \<^verbatim>\<open>try\<close> of \<^verbatim>\<open>readTasks\<close>. When \<^verbatim>\<open>fs.access\<close> rejects, the inner
  \<^verbatim>\<open>catch\<close> writes an empty array and returns it; a rejection of that write leaves the
  inner \<^verbatim>\<open>catch\<close> as an exception of the outer \<^verbatim>\<open>try\<close>.
\<close>

definition readTasks_try :: "world \<Rightarrow> (string + parsed) \<times> world" where
  "readTasks_try w =
     (case fs_access w of
        Inl _ \<Rightarrow>
          (case fs_writeFile [] w of
             (Inl e, w1) \<Rightarrow> (Inl e, w1)
           | (Inr _, w1) \<Rightarrow> (Inr (Array []), w1))
      | Inr _ \<Rightarrow>
          (case fs_readFile w of
             Inl e \<Rightarrow> (Inl e, w)
           | Inr data \<Rightarrow>
               if data = Blank then (Inr (Array []), w) else (JSON_parse data, w)))"

text \<open>The outer \<^verbatim>\<open>catch\<close> logs the error and returns an empty array.\<close>

definition readTasks :: "world \<Rightarrow> (string + parsed) \<times> world" where
  "readTasks w =
     (case readTasks_try w of
        (Inl e, w1) \<Rightarrow> (Inr (Array []), w1)
      | (Inr p, w1) \<Rightarrow> (Inr p, w1))"

text \<open>\<^verbatim>\<open>writeTasks\<close> logs and rethrows what \<^verbatim>\<open>fs.writeFile\<close> throws.\<close>

definition writeTasks :: "task list \<Rightarrow> world \<Rightarrow> (string + unit) \<times> world" where
  "writeTasks tasks w =
     (case fs_writeFile tasks w of
        (Inl e, w1) \<Rightarrow> (Inl e, w1)
      | (Inr u, w1) \<Rightarrow> (Inr u, w1))"

subsection \<open>The routes\<close>

text \<open>The response of a route's \<^verbatim>\<open>catch\<close>: status 500, the route's text and \<^verbatim>\<open>error.message\<close>.\<close>

definition failed :: "string \<Rightarrow> string \<Rightarrow> response" where
  "failed what e = \<lparr>status = 500, body = JObj [(''error'', JStr what), (''details'', JStr e)]\<rparr>"

definition notFound :: response where
  "notFound = \<lparr>status = 404, body = JObj [(''error'', JStr ''Task not found'')]\<rparr>"

text \<open>
  \<^verbatim>\<open>GET /api/tasks\<close>. Line 84 reads \<^verbatim>\<open>tasks.length\<close>, which throws when \<^verbatim>\<open>tasks\<close> is
  \<^verbatim>\<open>null\<close>; any other value is sent as it is.
\<close>

definition get_tasks :: "world \<Rightarrow> response \<times> world" where
  "get_tasks w =
     (case readTasks w of
        (Inl e, w1) \<Rightarrow> (failed ''Failed to fetch tasks'' e, w1)
      | (Inr (NotArray v), w1) \<Rightarrow>
          if v = NNull then (failed ''Failed to fetch tasks'' (nullProperty ''length''), w1)
          else (\<lparr>status = 200, body = json_of v\<rparr>, w1)
      | (Inr (Array tasks), w1) \<Rightarrow>
          (\<lparr>status = 200, body = JArr (map task_json tasks)\<rparr>, w1))"

text \<open>
  \<^verbatim>\<open>POST /api/tasks\<close>. The test of line 101 on \<^verbatim>\<open>req.body.text\<close>, which is
  \<^verbatim>\<open>undefined\<close> (\<open>None\<close>) when the body has no such field: \<^verbatim>\<open>!text\<close>, then
  \<^verbatim>\<open>typeof text !== 'string'\<close>, then \<^verbatim>\<open>text.trim() === ''\<close>. On a value that is not
  an array, \<^verbatim>\<open>tasks.push\<close> of line 116 throws.
\<close>

fun falsy :: "json option \<Rightarrow> bool" where
  "falsy None = True"
| "falsy (Some JNull) = True"
| "falsy (Some (JBool b)) = (\<not> b)"
| "falsy (Some (JNum n)) = (n = 0)"
| "falsy (Some (JStr s)) = (s = [])"
| "falsy (Some (JArr _)) = False"
| "falsy (Some (JObj _)) = False"

fun typeof :: "json option \<Rightarrow> string" where
  "typeof None = ''undefined''"
| "typeof (Some JNull) = ''object''"
| "typeof (Some (JBool _)) = ''boolean''"
| "typeof (Some (JNum _)) = ''number''"
| "typeof (Some (JStr _)) = ''string''"
| "typeof (Some (JArr _)) = ''object''"
| "typeof (Some (JObj _)) = ''object''"

text \<open>The characters of a string value. The source reads them only after the \<^verbatim>\<open>typeof\<close> test.\<close>

fun chars :: "json option \<Rightarrow> string" where
  "chars (Some (JStr s)) = s"
| "chars _ = []"

definition rejected :: "json option \<Rightarrow> bool" where
  "rejected text \<longleftrightarrow> falsy text \<or> typeof text \<noteq> ''string'' \<or> trim (chars text) = []"

text \<open>
  What a \<^verbatim>\<open>POST\<close> reads from its surroundings: \<^verbatim>\<open>Date.now()\<close>, the nine characters cut
  from \<^verbatim>\<open>Math.random().toString(36)\<close>, and the two \<^verbatim>\<open>new Date().toISOString()\<close> of
  lines 112 and 113, each a reading of the clock of its own.
\<close>

record readings =
  Date_now :: nat
  random36 :: string
  iso_created :: string
  iso_updated :: string

definition newTask :: "string \<Rightarrow> readings \<Rightarrow> task" where
  "newTask s r =
     \<lparr>task_id = toString10 (Date_now r) @ random36 r,
      task_text = trim s,
      completed = False,
      createdAt = iso_created r,
      updatedAt = iso_updated r\<rparr>"

definition post_tasks :: "json option \<Rightarrow> readings \<Rightarrow> world \<Rightarrow> response \<times> world" where
  "post_tasks text r w =
     (if rejected text then
        (\<lparr>status = 400, body = JObj
            [(''error'', JStr ''Task text is required and must be a non-empty string'')]\<rparr>, w)
      else
        (case readTasks w of
           (Inl e, w1) \<Rightarrow> (failed ''Failed to add task'' e, w1)
         | (Inr (NotArray v), w1) \<Rightarrow> (failed ''Failed to add task'' (callError v ''push''), w1)
         | (Inr (Array tasks), w1) \<Rightarrow>
             (case writeTasks (tasks @ [newTask (chars text) r]) w1 of
                (Inl e, w2) \<Rightarrow> (failed ''Failed to add task'' e, w2)
              | (Inr _, w2) \<Rightarrow>
                  (\<lparr>status = 201, body = task_json (newTask (chars text) r)\<rparr>, w2))))"

text \<open>
  \<^verbatim>\<open>PUT /api/tasks/:id\<close>. \<^verbatim>\<open>findIndex\<close> gives the first index that matches; \<open>None\<close> is
  -1. On a value that is not an array, the call of line 137 throws.
\<close>

fun findIndex :: "('a \<Rightarrow> bool) \<Rightarrow> 'a list \<Rightarrow> nat option" where
  "findIndex P [] = None"
| "findIndex P (x # xs) = (if P x then Some 0 else map_option Suc (findIndex P xs))"

definition toggled :: "string \<Rightarrow> task \<Rightarrow> task" where
  "toggled now t = t\<lparr>completed := \<not> completed t, updatedAt := now\<rparr>"

definition put_task :: "string \<Rightarrow> string \<Rightarrow> world \<Rightarrow> response \<times> world" where
  "put_task ident now w =
     (case readTasks w of
        (Inl e, w1) \<Rightarrow> (failed ''Failed to update task'' e, w1)
      | (Inr (NotArray v), w1) \<Rightarrow>
          (failed ''Failed to update task'' (callError v ''findIndex''), w1)
      | (Inr (Array tasks), w1) \<Rightarrow>
          (case findIndex (\<lambda>t. task_id t = ident) tasks of
             None \<Rightarrow> (notFound, w1)
           | Some i \<Rightarrow>
               (case writeTasks (tasks[i := toggled now (tasks ! i)]) w1 of
                  (Inl e, w2) \<Rightarrow> (failed ''Failed to update task'' e, w2)
                | (Inr _, w2) \<Rightarrow>
                    (\<lparr>status = 200, body = task_json (tasks[i := toggled now (tasks ! i)] ! i)\<rparr>,
                     w2))))"

text \<open>
  \<^verbatim>\<open>DELETE /api/tasks/:id\<close>. On a value that is not an array, line 166 throws when it is
  \<^verbatim>\<open>null\<close> and line 167 throws otherwise.
\<close>

definition delete_task :: "string \<Rightarrow> world \<Rightarrow> response \<times> world" where
  "delete_task ident w =
     (case readTasks w of
        (Inl e, w1) \<Rightarrow> (failed ''Failed to delete task'' e, w1)
      | (Inr (NotArray v), w1) \<Rightarrow>
          (failed ''Failed to delete task''
             (if v = NNull then nullProperty ''length'' else notFunction ''filter''), w1)
      | (Inr (Array tasks), w1) \<Rightarrow>
          (let filteredTasks = filter (\<lambda>t. task_id t \<noteq> ident) tasks in
           if length tasks = length filteredTasks then (notFound, w1)
           else
             (case writeTasks filteredTasks w1 of
                (Inl e, w2) \<Rightarrow> (failed ''Failed to delete task'' e, w2)
              | (Inr _, w2) \<Rightarrow>
                  (\<lparr>status = 200, body = JObj
                      [(''message'', JStr ''Task deleted successfully''),
                       (''deletedId'', JStr ident),
                       (''remainingTasks'', JNum (int (length filteredTasks)))]\<rparr>, w2))))"

text \<open>
  \<^verbatim>\<open>DELETE /api/tasks/clear/completed\<close>. On a value that is not an array, the call of
  line 196 throws.
\<close>

definition clear_completed :: "world \<Rightarrow> response \<times> world" where
  "clear_completed w =
     (case readTasks w of
        (Inl e, w1) \<Rightarrow> (failed ''Failed to clear completed tasks'' e, w1)
      | (Inr (NotArray v), w1) \<Rightarrow>
          (failed ''Failed to clear completed tasks'' (callError v ''filter''), w1)
      | (Inr (Array tasks), w1) \<Rightarrow>
          (let completedTasks = filter (\<lambda>t. completed t) tasks;
               activeTasks = filter (\<lambda>t. \<not> completed t) tasks in
           if length completedTasks = 0 then
             (\<lparr>status = 200, body = JObj
                 [(''message'', JStr ''No completed tasks to clear''),
                  (''cleared'', JNum 0),
                  (''remaining'', JNum (int (length tasks)))]\<rparr>, w1)
           else
             (case writeTasks activeTasks w1 of
                (Inl e, w2) \<Rightarrow> (failed ''Failed to clear completed tasks'' e, w2)
              | (Inr _, w2) \<Rightarrow>
                  (\<lparr>status = 200, body = JObj
                      [(''message'', JStr ''Completed tasks cleared successfully''),
                       (''cleared'', JNum (int (length completedTasks))),
                       (''remaining'', JNum (int (length activeTasks)))]\<rparr>, w2))))"

subsection \<open>Observations\<close>

text \<open>
  The Collection of a world: the array a load returns there. A world has one
  (\<open>loads_array\<close>) unless the load returns a value that is not an array.
\<close>

definition collection :: "world \<Rightarrow> task list" where
  "collection w = (case fst (readTasks w) of Inr (Array ts) \<Rightarrow> ts | _ \<Rightarrow> [])"

definition loads_array :: "world \<Rightarrow> bool" where
  "loads_array w = (case fst (readTasks w) of Inr (Array _) \<Rightarrow> True | _ \<Rightarrow> False)"

definition ids :: "task list \<Rightarrow> string list" where
  "ids ts = map task_id ts"

text \<open>The coming \<^verbatim>\<open>fs.writeFile\<close> call resolves.\<close>

definition save_ok :: "world \<Rightarrow> bool" where
  "save_ok w = (case wfaults w of Some e # _ \<Rightarrow> False | _ \<Rightarrow> True)"

text \<open>
  The specification's condition on the text of an Add: a string that is not empty once
  trimmed. It is set against \<open>rejected\<close>, the test the route makes.
\<close>

fun valid_text :: "json option \<Rightarrow> bool" where
  "valid_text (Some (JStr s)) = (trim s \<noteq> [])"
| "valid_text _ = False"

subsection \<open>Sample data\<close>

definition buy_milk :: task where
  "buy_milk = \<lparr>task_id = ''1699999990000a1b2c3d4e'', task_text = ''buy milk'', completed = False,
     createdAt = ''2023-11-14T22:13:10.000Z'', updatedAt = ''2023-11-14T22:13:10.000Z''\<rparr>"

definition walk_dog :: task where
  "walk_dog = \<lparr>task_id = ''1700000000123abcdefghi'', task_text = ''walk dog'', completed = True,
     createdAt = ''2023-11-14T22:13:20.123Z'', updatedAt = ''2023-11-14T22:15:00.000Z''\<rparr>"

definition stored :: "task list \<Rightarrow> world" where
  "stored ts = \<lparr>tasks_file = Present (Doc ts), wfaults = [], writes = 0\<rparr>"

definition no_file :: world where
  "no_file = \<lparr>tasks_file = Missing, wfaults = [], writes = 0\<rparr>"

definition at_noon :: readings where
  "at_noon = \<lparr>Date_now = 1700000000000, random36 = ''k3j9x0q1z'',
     iso_created = ''2023-11-14T22:13:20.000Z'', iso_updated = ''2023-11-14T22:13:20.001Z''\<rparr>"

section \<open>Properties\<close>

subsection \<open>Loading and saving\<close>

lemma collection_file:
  "collection w = (case tasks_file w of Present (Doc ts) \<Rightarrow> ts | _ \<Rightarrow> [])"
  by (simp add: collection_def readTasks_def readTasks_try_def fs_access_def fs_readFile_def
      fs_writeFile_def JSON_parse_def
      split: file_state.splits content.splits list.splits option.splits)

lemma loads_array_file:
  "loads_array w = (case tasks_file w of Present (Other v) \<Rightarrow> False | _ \<Rightarrow> True)"
  by (simp add: loads_array_def readTasks_def readTasks_try_def fs_access_def fs_readFile_def
      fs_writeFile_def JSON_parse_def
      split: file_state.splits content.splits list.splits option.splits)

lemma load_keeps_present: "tasks_file w \<noteq> Missing \<Longrightarrow> snd (readTasks w) = w"
  by (simp add: readTasks_def readTasks_try_def fs_access_def fs_readFile_def
      JSON_parse_def split: file_state.splits content.splits)

lemma readTasks_present:
  "tasks_file w \<noteq> Missing \<Longrightarrow> loads_array w \<Longrightarrow> readTasks w = (Inr (Array (collection w)), w)"
  by (simp add: collection_file loads_array_file readTasks_def readTasks_try_def fs_access_def
      fs_readFile_def JSON_parse_def split: file_state.splits content.splits)

lemma readTasks_other:
  "tasks_file w = Present (Other v) \<Longrightarrow> readTasks w = (Inr (NotArray v), w)"
  by (simp add: readTasks_def readTasks_try_def fs_access_def fs_readFile_def JSON_parse_def)

lemma readTasks_missing:
  "tasks_file w = Missing \<Longrightarrow> readTasks w = (Inr (Array []), snd (fs_writeFile [] w))"
  by (simp add: readTasks_def readTasks_try_def fs_access_def fs_writeFile_def
      split: list.splits option.splits)

lemma readTasks_total: "\<exists>p w1. readTasks w = (Inr p, w1)"
  by (simp add: readTasks_def split: prod.splits sum.splits)

lemma readTasks_fst: "loads_array w \<Longrightarrow> fst (readTasks w) = Inr (Array (collection w))"
  by (simp add: loads_array_def collection_def split: sum.splits parsed.splits)

lemma fs_writeFile_ok:
  "save_ok w \<Longrightarrow> fs_writeFile ts w =
     (Inr (), w\<lparr>tasks_file := Present (Doc ts), wfaults := tl (wfaults w), writes := Suc (writes w)\<rparr>)"
  by (cases w) (simp add: save_ok_def fs_writeFile_def split: list.splits option.splits)

lemma fs_writeFile_rejected:
  "wfaults w = Some e # fs \<Longrightarrow> fs_writeFile ts w = (Inl e, w\<lparr>wfaults := fs, writes := Suc (writes w)\<rparr>)"
  by (simp add: fs_writeFile_def)

lemma writeTasks_ok:
  "save_ok w \<Longrightarrow> writeTasks ts w =
     (Inr (), w\<lparr>tasks_file := Present (Doc ts), wfaults := tl (wfaults w), writes := Suc (writes w)\<rparr>)"
  by (simp add: writeTasks_def fs_writeFile_ok)

lemma writeTasks_rejected:
  "wfaults w = Some e # fs \<Longrightarrow> writeTasks ts w = (Inl e, w\<lparr>wfaults := fs, writes := Suc (writes w)\<rparr>)"
  by (simp add: writeTasks_def fs_writeFile_rejected)

lemma writeTasks_cases:
  "save_ok w \<or> (\<exists>e fs. wfaults w = Some e # fs)"
  by (simp add: save_ok_def split: list.splits option.splits)

lemma collection_written [simp]: "collection (w\<lparr>tasks_file := Present (Doc ts)\<rparr>) = ts"
  by (simp add: collection_file)

lemma collection_wfaults [simp]: "collection (w\<lparr>wfaults := fs\<rparr>) = collection w"
  by (simp add: collection_file)

lemma collection_writes [simp]: "collection (w\<lparr>writes := n\<rparr>) = collection w"
  by (simp add: collection_file)

lemma loads_array_written [simp]: "loads_array (w\<lparr>tasks_file := Present (Doc ts)\<rparr>)"
  by (simp add: loads_array_file)

lemma loads_array_wfaults [simp]: "loads_array (w\<lparr>wfaults := fs\<rparr>) = loads_array w"
  by (simp add: loads_array_file)

lemma loads_array_writes [simp]: "loads_array (w\<lparr>writes := n\<rparr>) = loads_array w"
  by (simp add: loads_array_file)

lemma collection_after_load: "collection (snd (readTasks w)) = collection w"
proof (cases "tasks_file w = Missing")
  case True
  then show ?thesis
    by (simp add: readTasks_missing fs_writeFile_def collection_file split: list.splits option.splits)
next
  case False
  then show ?thesis by (simp add: load_keeps_present)
qed

lemma readTasks_eq:
  "loads_array w \<Longrightarrow> readTasks w = (Inr (Array (collection w)), snd (readTasks w))"
  using readTasks_fst [of w] by (cases "readTasks w") simp

lemma collection_nonempty_present: "collection w \<noteq> [] \<Longrightarrow> tasks_file w \<noteq> Missing"
  by (auto simp: collection_file)

lemma collection_nonempty_array: "collection w \<noteq> [] \<Longrightarrow> loads_array w"
  by (auto simp: collection_file loads_array_file split: file_state.splits content.splits)

lemma findIndex_None: "findIndex P xs = None \<longleftrightarrow> (\<forall>x\<in>set xs. \<not> P x)"
  by (induction xs) auto

lemma findIndex_Some:
  "findIndex P xs = Some i \<Longrightarrow> i < length xs \<and> P (xs ! i) \<and> (\<forall>j<i. \<not> P (xs ! j))"
proof (induction xs arbitrary: i)
  case Nil
  then show ?case by simp
next
  case (Cons x xs)
  show ?case
  proof (cases "P x")
    case True
    with Cons.prems show ?thesis by simp
  next
    case False
    with Cons.prems obtain k where k: "findIndex P xs = Some k" "i = Suc k"
      by auto
    from Cons.IH [OF k(1)] False k(2) show ?thesis
      by (auto simp: less_Suc_eq_0_disj)
  qed
qed

lemma findIndex_update:
  "findIndex P xs = Some i \<Longrightarrow> P y \<Longrightarrow> findIndex P (xs[i := y]) = Some i"
proof (induction xs arbitrary: i)
  case Nil
  then show ?case by simp
next
  case (Cons x xs)
  then show ?case by (cases "P x") auto
qed

lemma put_task_unknown:
  assumes "loads_array w" and "findIndex (\<lambda>t. task_id t = ident) (collection w) = None"
  shows "put_task ident now w = (notFound, snd (readTasks w))"
proof -
  obtain w1 where r: "readTasks w = (Inr (Array (collection w)), w1)"
    using readTasks_eq [OF assms(1)] by blast
  with assms show ?thesis by (simp add: put_task_def)
qed

lemma put_task_other:
  assumes "tasks_file w = Present (Other v)"
  shows "put_task ident now w = (failed ''Failed to update task'' (callError v ''findIndex''), w)"
  by (simp add: put_task_def readTasks_other [OF assms])

lemma put_task_saved:
  assumes "findIndex (\<lambda>t. task_id t = ident) (collection w) = Some i" and "save_ok w"
  shows "put_task ident now w =
    (\<lparr>status = 200, body = task_json (toggled now (collection w ! i))\<rparr>,
     w\<lparr>tasks_file := Present (Doc ((collection w)[i := toggled now (collection w ! i)])),
       wfaults := tl (wfaults w), writes := Suc (writes w)\<rparr>)"
proof -
  from assms(1) have "collection w \<noteq> []" by auto
  then have r: "readTasks w = (Inr (Array (collection w)), w)"
    by (simp add: readTasks_present collection_nonempty_present collection_nonempty_array)
  from findIndex_Some [OF assms(1)] have "i < length (collection w)" by simp
  with r assms show ?thesis
    by (simp add: put_task_def writeTasks_ok)
qed

lemma put_task_rejected:
  assumes "findIndex (\<lambda>t. task_id t = ident) (collection w) = Some i" and "wfaults w = Some e # fs"
  shows "put_task ident now w =
    (failed ''Failed to update task'' e, w\<lparr>wfaults := fs, writes := Suc (writes w)\<rparr>)"
proof -
  from assms(1) have "collection w \<noteq> []" by auto
  then have r: "readTasks w = (Inr (Array (collection w)), w)"
    by (simp add: readTasks_present collection_nonempty_present collection_nonempty_array)
  with assms show ?thesis
    by (simp add: put_task_def writeTasks_rejected)
qed

subsection \<open>What each route does\<close>

lemma loaded_present:
  "collection w \<noteq> [] \<Longrightarrow> readTasks w = (Inr (Array (collection w)), w)"
  by (simp add: readTasks_present collection_nonempty_present collection_nonempty_array)

lemma filter_keeps_length:
  "length (filter P xs) = length xs \<longleftrightarrow> (\<forall>x\<in>set xs. P x)"
  by (metis filter_id_conv length_filter_le length_filter_less less_irrefl)

lemma delete_task_other:
  assumes "tasks_file w = Present (Other v)"
  shows "delete_task ident w = (failed ''Failed to delete task''
    (if v = NNull then nullProperty ''length'' else notFunction ''filter''), w)"
  by (simp add: delete_task_def readTasks_other [OF assms])

lemma delete_task_unknown:
  assumes "loads_array w" and "ident \<notin> set (ids (collection w))"
  shows "delete_task ident w = (notFound, snd (readTasks w))"
proof -
  obtain w1 where r: "readTasks w = (Inr (Array (collection w)), w1)"
    using readTasks_eq [OF assms(1)] by blast
  from assms(2) have "\<forall>t\<in>set (collection w). task_id t \<noteq> ident"
    by (auto simp: ids_def)
  then have "length (filter (\<lambda>t. task_id t \<noteq> ident) (collection w)) = length (collection w)"
    by (simp add: filter_keeps_length)
  with r show ?thesis by (simp add: delete_task_def)
qed

lemma delete_task_saved:
  assumes "ident \<in> set (ids (collection w))" and "save_ok w"
  shows "delete_task ident w =
    (\<lparr>status = 200, body = JObj
        [(''message'', JStr ''Task deleted successfully''),
         (''deletedId'', JStr ident),
         (''remainingTasks'',
            JNum (int (length (filter (\<lambda>t. task_id t \<noteq> ident) (collection w)))))]\<rparr>,
     w\<lparr>tasks_file := Present (Doc (filter (\<lambda>t. task_id t \<noteq> ident) (collection w))),
       wfaults := tl (wfaults w), writes := Suc (writes w)\<rparr>)"
proof -
  from assms(1) have ne: "collection w \<noteq> []" by (auto simp: ids_def)
  from assms(1) have "\<not> (\<forall>t\<in>set (collection w). task_id t \<noteq> ident)"
    by (auto simp: ids_def)
  then have "length (filter (\<lambda>t. task_id t \<noteq> ident) (collection w)) \<noteq> length (collection w)"
    by (simp add: filter_keeps_length)
  with loaded_present [OF ne] assms(2) show ?thesis
    by (simp add: delete_task_def writeTasks_ok Let_def)
qed

lemma delete_task_rejected:
  assumes "ident \<in> set (ids (collection w))" and "wfaults w = Some e # fs"
  shows "delete_task ident w =
    (failed ''Failed to delete task'' e, w\<lparr>wfaults := fs, writes := Suc (writes w)\<rparr>)"
proof -
  from assms(1) have ne: "collection w \<noteq> []" by (auto simp: ids_def)
  from assms(1) have "\<not> (\<forall>t\<in>set (collection w). task_id t \<noteq> ident)"
    by (auto simp: ids_def)
  then have "length (filter (\<lambda>t. task_id t \<noteq> ident) (collection w)) \<noteq> length (collection w)"
    by (simp add: filter_keeps_length)
  with loaded_present [OF ne] assms(2) show ?thesis
    by (simp add: delete_task_def writeTasks_rejected Let_def)
qed

lemma clear_completed_other:
  assumes "tasks_file w = Present (Other v)"
  shows "clear_completed w =
    (failed ''Failed to clear completed tasks'' (callError v ''filter''), w)"
  by (simp add: clear_completed_def readTasks_other [OF assms])

lemma clear_completed_none:
  assumes "loads_array w" and "\<forall>t\<in>set (collection w). \<not> completed t"
  shows "clear_completed w =
    (\<lparr>status = 200, body = JObj
        [(''message'', JStr ''No completed tasks to clear''),
         (''cleared'', JNum 0),
         (''remaining'', JNum (int (length (collection w))))]\<rparr>, snd (readTasks w))"
proof -
  obtain w1 where r: "readTasks w = (Inr (Array (collection w)), w1)"
    using readTasks_eq [OF assms(1)] by blast
  from assms(2) have "filter (\<lambda>t. completed t) (collection w) = []"
    by (simp add: filter_empty_conv)
  with r show ?thesis by (simp add: clear_completed_def)
qed

lemma clear_completed_saved:
  assumes "\<exists>t\<in>set (collection w). completed t" and "save_ok w"
  shows "clear_completed w =
    (\<lparr>status = 200, body = JObj
        [(''message'', JStr ''Completed tasks cleared successfully''),
         (''cleared'', JNum (int (length (filter (\<lambda>t. completed t) (collection w))))),
         (''remaining'', JNum (int (length (filter (\<lambda>t. \<not> completed t) (collection w)))))]\<rparr>,
     w\<lparr>tasks_file := Present (Doc (filter (\<lambda>t. \<not> completed t) (collection w))),
       wfaults := tl (wfaults w), writes := Suc (writes w)\<rparr>)"
proof -
  from assms(1) have ne: "collection w \<noteq> []" by auto
  from assms(1) have "filter (\<lambda>t. completed t) (collection w) \<noteq> []"
    by (simp add: filter_empty_conv)
  with loaded_present [OF ne] assms(2) show ?thesis
    by (simp add: clear_completed_def writeTasks_ok Let_def)
qed

lemma clear_completed_rejected:
  assumes "\<exists>t\<in>set (collection w). completed t" and "wfaults w = Some e # fs"
  shows "clear_completed w =
    (failed ''Failed to clear completed tasks'' e, w\<lparr>wfaults := fs, writes := Suc (writes w)\<rparr>)"
proof -
  from assms(1) have ne: "collection w \<noteq> []" by auto
  from assms(1) have "filter (\<lambda>t. completed t) (collection w) \<noteq> []"
    by (simp add: filter_empty_conv)
  with loaded_present [OF ne] assms(2) show ?thesis
    by (simp add: clear_completed_def writeTasks_rejected Let_def)
qed

lemma trim_Nil [simp]: "trim [] = []"
  by (simp add: trim_def)

lemma rejected_iff: "rejected text \<longleftrightarrow> \<not> valid_text text"
  by (cases "text" rule: valid_text.cases) (auto simp: rejected_def)

lemma post_tasks_other:
  assumes "valid_text text" and "tasks_file w = Present (Other v)"
  shows "post_tasks text r w = (failed ''Failed to add task'' (callError v ''push''), w)"
  using assms(1) by (simp add: post_tasks_def rejected_iff readTasks_other [OF assms(2)])

lemma post_tasks_saved:
  assumes "valid_text text" and "save_ok (snd (readTasks w))" and "loads_array w"
  shows "post_tasks text r w =
    (\<lparr>status = 201, body = task_json (newTask (chars text) r)\<rparr>,
     (snd (readTasks w))\<lparr>tasks_file := Present (Doc (collection w @ [newTask (chars text) r])),
       wfaults := tl (wfaults (snd (readTasks w))), writes := Suc (writes (snd (readTasks w)))\<rparr>)"
proof -
  obtain w1 where r: "readTasks w = (Inr (Array (collection w)), w1)"
    using readTasks_eq [OF assms(3)] by blast
  with assms show ?thesis
    by (simp add: post_tasks_def rejected_iff writeTasks_ok)
qed

lemma post_tasks_rejected:
  assumes "valid_text text" and "wfaults (snd (readTasks w)) = Some e # fs"
    and "loads_array w"
  shows "post_tasks text r w =
    (failed ''Failed to add task'' e,
     (snd (readTasks w))\<lparr>wfaults := fs, writes := Suc (writes (snd (readTasks w)))\<rparr>)"
proof -
  obtain w1 where r: "readTasks w = (Inr (Array (collection w)), w1)"
    using readTasks_eq [OF assms(3)] by blast
  with assms show ?thesis
    by (simp add: post_tasks_def rejected_iff writeTasks_rejected)
qed

lemma post_tasks_invalid:
  assumes "\<not> valid_text text"
  shows "post_tasks text r w =
    (\<lparr>status = 400, body = JObj
        [(''error'', JStr ''Task text is required and must be a non-empty string'')]\<rparr>, w)"
  using assms by (simp add: post_tasks_def rejected_iff)

subsection \<open>The sample data\<close>

lemma date_digits: "toString10 1700000000000 = ''1700000000000''"
  by (simp add: toString10.simps digit_def)

lemma trim_walk_dog: "trim '' walk dog '' = ''walk dog''"
  by (simp add: trim_def isWhiteSpace_def)

lemma collection_stored [simp]: "collection (stored ts) = ts"
  by (simp add: stored_def collection_file)

lemma save_ok_stored [simp]: "save_ok (stored ts)"
  by (simp add: stored_def save_ok_def)

lemma loads_array_stored [simp]: "loads_array (stored ts)"
  by (simp add: stored_def loads_array_file)

lemma readTasks_stored [simp]: "readTasks (stored ts) = (Inr (Array ts), stored ts)"
  by (simp add: readTasks_present stored_def collection_file loads_array_file)

section \<open>The claims\<close>

subsection \<open>Add\<close>

lemma post_tasks_appends:
  assumes "valid_text text" and "save_ok (snd (readTasks w))" and "loads_array w"
    and "post_tasks text r w = (res, w1)"
  shows "res = \<lparr>status = 201, body = task_json (newTask (chars text) r)\<rparr>"
    and "collection w1 = collection w @ [newTask (chars text) r]"
    and "task_text (newTask (chars text) r) = trim (chars text)"
    and "\<not> completed (newTask (chars text) r)"
    and "get_tasks w1 = (\<lparr>status = 200, body = JArr (map task_json (collection w1))\<rparr>, w1)"
proof -
  from post_tasks_saved [OF assms(1,2,3), of r] assms(4)
  have res: "res = \<lparr>status = 201, body = task_json (newTask (chars text) r)\<rparr>"
    and w1: "w1 = (snd (readTasks w))\<lparr>tasks_file :=
        Present (Doc (collection w @ [newTask (chars text) r])),
      wfaults := tl (wfaults (snd (readTasks w))),
      writes := Suc (writes (snd (readTasks w)))\<rparr>"
    by simp_all
  show "res = \<lparr>status = 201, body = task_json (newTask (chars text) r)\<rparr>"
    by (rule res)
  show c: "collection w1 = collection w @ [newTask (chars text) r]"
    by (simp add: w1 collection_file)
  show "task_text (newTask (chars text) r) = trim (chars text)"
    by (simp add: newTask_def)
  show "\<not> completed (newTask (chars text) r)"
    by (simp add: newTask_def)
  have "tasks_file w1 \<noteq> Missing" and "loads_array w1" by (simp_all add: w1)
  then show "get_tasks w1 = (\<lparr>status = 200, body = JArr (map task_json (collection w1))\<rparr>, w1)"
    by (simp add: get_tasks_def readTasks_present)
qed

lemma post_tasks_at_noon:
  "post_tasks (Some (JStr '' walk dog '')) at_noon (stored [buy_milk]) =
     (\<lparr>status = 201, body = JObj
        [(''id'', JStr ''1700000000000k3j9x0q1z''),
         (''text'', JStr ''walk dog''),
         (''completed'', JBool False),
         (''createdAt'', JStr ''2023-11-14T22:13:20.000Z''),
         (''updatedAt'', JStr ''2023-11-14T22:13:20.001Z'')]\<rparr>,
      \<lparr>tasks_file = Present (Doc [buy_milk,
         \<lparr>task_id = ''1700000000000k3j9x0q1z'', task_text = ''walk dog'', completed = False,
          createdAt = ''2023-11-14T22:13:20.000Z'', updatedAt = ''2023-11-14T22:13:20.001Z''\<rparr>]),
       wfaults = [], writes = 1\<rparr>)"
proof -
  have v: "valid_text (Some (JStr '' walk dog ''))"
    by (simp add: trim_walk_dog)
  have n: "newTask '' walk dog '' at_noon =
    \<lparr>task_id = ''1700000000000k3j9x0q1z'', task_text = ''walk dog'', completed = False,
     createdAt = ''2023-11-14T22:13:20.000Z'', updatedAt = ''2023-11-14T22:13:20.001Z''\<rparr>"
    by (simp add: newTask_def at_noon_def date_digits trim_walk_dog)
  show ?thesis
    using post_tasks_saved [OF v _ loads_array_stored, of "[buy_milk]" at_noon]
    by (simp add: n task_json_def) (simp add: stored_def)
qed

text \<open>
  Claim C1. A valid Add appends one task with the trimmed text and \<open>completed\<close> false,
  returns it, and a List that follows holds it (\<open>post_tasks_appends\<close>). The claim also
  has \<open>createdAt\<close> equal to \<open>updatedAt\<close>; the route reads the clock once for each
  field (lines 112 and 113), and here the clock moves on one millisecond between the two
  readings: the task that is stored and returned has two different timestamps.
\<close>

theorem post_tasks_two_clock_readings:
  "status (fst (post_tasks (Some (JStr '' walk dog '')) at_noon (stored [buy_milk]))) = 201
   \<and> field ''createdAt'' (body (fst (post_tasks (Some (JStr '' walk dog '')) at_noon
        (stored [buy_milk])))) = Some (JStr ''2023-11-14T22:13:20.000Z'')
   \<and> field ''updatedAt'' (body (fst (post_tasks (Some (JStr '' walk dog '')) at_noon
        (stored [buy_milk])))) = Some (JStr ''2023-11-14T22:13:20.001Z'')
   \<and> createdAt (collection (snd (post_tasks (Some (JStr '' walk dog '')) at_noon
        (stored [buy_milk]))) ! 1) \<noteq>
      updatedAt (collection (snd (post_tasks (Some (JStr '' walk dog '')) at_noon
        (stored [buy_milk]))) ! 1)"
  by (simp add: post_tasks_at_noon collection_file)

text \<open>
  Claim C5. When the text is not a string, or is empty once trimmed, Add answers 400 with
  an error and leaves the world as it was: the file is the same and no
  \<^verbatim>\<open>fs.writeFile\<close> call was made.
\<close>

theorem post_tasks_validation:
  assumes "\<not> valid_text text"
  shows "fst (post_tasks text r w) = \<lparr>status = 400, body = JObj
           [(''error'', JStr ''Task text is required and must be a non-empty string'')]\<rparr>
       \<and> snd (post_tasks text r w) = w"
  using assms by (simp add: post_tasks_invalid)

theorem post_tasks_validation_witness:
  "fst (post_tasks (Some (JStr [CHR 0x20, CHR 0x09])) at_noon (stored [buy_milk])) =
     \<lparr>status = 400, body = JObj
       [(''error'', JStr ''Task text is required and must be a non-empty string'')]\<rparr>
   \<and> snd (post_tasks (Some (JStr [CHR 0x20, CHR 0x09])) at_noon (stored [buy_milk])) =
     stored [buy_milk]"
proof -
  have "\<not> valid_text (Some (JStr [CHR 0x20, CHR 0x09]))"
    by (simp add: trim_def isWhiteSpace_def)
  then show ?thesis
    by (rule post_tasks_validation)
qed

subsection \<open>Requests that change nothing\<close>













subsection \<open>Toggle\<close>

lemma put_task_collection:
  assumes "findIndex (\<lambda>t. task_id t = ident) (collection w) = Some i"
  shows "collection (snd (put_task ident now w)) =
    (if save_ok w then (collection w)[i := toggled now (collection w ! i)] else collection w)"
proof (cases "save_ok w")
  case True
  with put_task_saved [OF assms True, of now] show ?thesis
    by (simp add: collection_file)
next
  case False
  with writeTasks_cases [of w] obtain e fs where "wfaults w = Some e # fs"
    by blast
  from put_task_rejected [OF assms this, of now] False show ?thesis
    by simp
qed

lemma toggled_fields [simp]:
  "task_id (toggled now t) = task_id t"
  "task_text (toggled now t) = task_text t"
  "createdAt (toggled now t) = createdAt t"
  "completed (toggled now t) = (\<not> completed t)"
  "updatedAt (toggled now t) = now"
  by (simp_all add: toggled_def)

text \<open>
  Claim C10. Toggle of an id the Collection holds finds the first task with that id, at
  index \<open>i\<close>. Whatever the save does, the Collection has the same length afterwards,
  every task at another index is the same, and the task at \<open>i\<close> has the same \<open>id\<close>,
  \<open>text\<close> and \<open>createdAt\<close>. When the save resolves, the answer is 200 with the task at
  \<open>i\<close>, whose \<open>completed\<close> is flipped and whose \<open>updatedAt\<close> is the reading of the clock.
\<close>

theorem put_task_frame:
  assumes "findIndex (\<lambda>t. task_id t = ident) (collection w) = Some i"
    and "put_task ident now w = (r, w1)"
  shows "i < length (collection w) \<and> task_id (collection w ! i) = ident
    \<and> length (collection w1) = length (collection w)
    \<and> (\<forall>j<length (collection w). j \<noteq> i \<longrightarrow> collection w1 ! j = collection w ! j)
    \<and> task_id (collection w1 ! i) = task_id (collection w ! i)
    \<and> task_text (collection w1 ! i) = task_text (collection w ! i)
    \<and> createdAt (collection w1 ! i) = createdAt (collection w ! i)
    \<and> (save_ok w \<longrightarrow>
          r = \<lparr>status = 200, body = task_json (collection w1 ! i)\<rparr>
        \<and> completed (collection w1 ! i) = (\<not> completed (collection w ! i))
        \<and> updatedAt (collection w1 ! i) = now)"
proof -
  from findIndex_Some [OF assms(1)]
  have i: "i < length (collection w)" and m: "task_id (collection w ! i) = ident"
    by simp_all
  from assms(2) have w1: "w1 = snd (put_task ident now w)" and r: "r = fst (put_task ident now w)"
    by simp_all
  have c: "collection w1 =
      (if save_ok w then (collection w)[i := toggled now (collection w ! i)] else collection w)"
    unfolding w1 by (rule put_task_collection [OF assms(1)])
  have ok: "save_ok w \<Longrightarrow> r = \<lparr>status = 200, body = task_json (collection w1 ! i)\<rparr>"
    using put_task_saved [OF assms(1), of now] i by (simp add: r c)
  from i m c ok show ?thesis by simp
qed

theorem put_task_frame_witness:
  "put_task ''1700000000123abcdefghi'' ''2023-11-14T23:00:00.000Z'' (stored [buy_milk, walk_dog]) =
     (\<lparr>status = 200, body = task_json
         (walk_dog\<lparr>completed := False, updatedAt := ''2023-11-14T23:00:00.000Z''\<rparr>)\<rparr>,
      \<lparr>tasks_file = Present (Doc
         [buy_milk, walk_dog\<lparr>completed := False, updatedAt := ''2023-11-14T23:00:00.000Z''\<rparr>]),
       wfaults = [], writes = 1\<rparr>)
   \<and> collection (snd (put_task ''1700000000123abcdefghi'' ''2023-11-14T23:00:00.000Z''
         (stored [buy_milk, walk_dog]))) ! 0 = buy_milk
   \<and> task_text (collection (snd (put_task ''1700000000123abcdefghi'' ''2023-11-14T23:00:00.000Z''
         (stored [buy_milk, walk_dog]))) ! 1) = ''walk dog''"
proof -
  let ?w = "stored [buy_milk, walk_dog]"
  have f: "findIndex (\<lambda>t. task_id t = ''1700000000123abcdefghi'') (collection ?w) = Some 1"
    by (simp add: buy_milk_def walk_dog_def)
  have p: "put_task ''1700000000123abcdefghi'' ''2023-11-14T23:00:00.000Z'' ?w =
     (\<lparr>status = 200, body = task_json
         (walk_dog\<lparr>completed := False, updatedAt := ''2023-11-14T23:00:00.000Z''\<rparr>)\<rparr>,
      \<lparr>tasks_file = Present (Doc
         [buy_milk, walk_dog\<lparr>completed := False, updatedAt := ''2023-11-14T23:00:00.000Z''\<rparr>]),
       wfaults = [], writes = 1\<rparr>)"
    using put_task_saved [OF f, of "''2023-11-14T23:00:00.000Z''"]
    by (simp add: toggled_def) (simp add: stored_def walk_dog_def)
  from put_task_frame [OF f p] p show ?thesis
    by (simp add: walk_dog_def)
qed

text \<open>
  Claim C8. Two Toggles of an id the Collection holds, both saved: the task found is the
  same both times, its \<open>completed\<close> is flipped by the first and back to what it was after
  the second, and its \<open>updatedAt\<close> is the clock reading of the first Toggle after the
  first and the clock reading of the second after the second.
\<close>

theorem put_task_twice:
  assumes "findIndex (\<lambda>t. task_id t = ident) (collection w) = Some i"
    and "save_ok w" and "put_task ident t1 w = (r1, w1)"
    and "save_ok w1" and "put_task ident t2 w1 = (r2, w2)"
  shows "status r1 = 200 \<and> status r2 = 200
    \<and> findIndex (\<lambda>t. task_id t = ident) (collection w1) = Some i
    \<and> completed (collection w1 ! i) = (\<not> completed (collection w ! i))
    \<and> updatedAt (collection w1 ! i) = t1
    \<and> completed (collection w2 ! i) = completed (collection w ! i)
    \<and> updatedAt (collection w2 ! i) = t2
    \<and> body r1 = task_json (collection w1 ! i)
    \<and> body r2 = task_json (collection w2 ! i)"
proof -
  from findIndex_Some [OF assms(1)]
  have i: "i < length (collection w)" and m: "task_id (collection w ! i) = ident"
    by simp_all
  from put_task_saved [OF assms(1,2), of t1] assms(3)
  have r1: "r1 = \<lparr>status = 200, body = task_json (toggled t1 (collection w ! i))\<rparr>"
    and c1: "collection w1 = (collection w)[i := toggled t1 (collection w ! i)]"
    by (auto simp: collection_file)
  have f1: "findIndex (\<lambda>t. task_id t = ident) (collection w1) = Some i"
    unfolding c1 using assms(1) m by (intro findIndex_update) simp_all
  from put_task_saved [OF f1 assms(4), of t2] assms(5)
  have r2: "r2 = \<lparr>status = 200, body = task_json (toggled t2 (collection w1 ! i))\<rparr>"
    and c2: "collection w2 = (collection w1)[i := toggled t2 (collection w1 ! i)]"
    by (auto simp: collection_file)
  from i have n1: "collection w1 ! i = toggled t1 (collection w ! i)"
    by (simp add: c1)
  from i have n2: "collection w2 ! i = toggled t2 (collection w1 ! i)"
    by (simp add: c2 c1)
  show ?thesis
    by (simp add: r1 r2 f1 n2) (simp add: n1)
qed

theorem put_task_twice_witness:
  "completed (collection (snd (put_task ''1700000000123abcdefghi'' ''2023-11-14T23:00:00.000Z''
      (stored [buy_milk, walk_dog]))) ! 1) = False
   \<and> updatedAt (collection (snd (put_task ''1700000000123abcdefghi'' ''2023-11-14T23:00:00.000Z''
      (stored [buy_milk, walk_dog]))) ! 1) = ''2023-11-14T23:00:00.000Z''
   \<and> completed (collection (snd (put_task ''1700000000123abcdefghi'' ''2023-11-14T23:30:00.000Z''
      (snd (put_task ''1700000000123abcdefghi'' ''2023-11-14T23:00:00.000Z''
        (stored [buy_milk, walk_dog]))))) ! 1) = True
   \<and> updatedAt (collection (snd (put_task ''1700000000123abcdefghi'' ''2023-11-14T23:30:00.000Z''
      (snd (put_task ''1700000000123abcdefghi'' ''2023-11-14T23:00:00.000Z''
        (stored [buy_milk, walk_dog]))))) ! 1) = ''2023-11-14T23:30:00.000Z''"
proof -
  let ?w = "stored [buy_milk, walk_dog]"
  let ?w1 = "snd (put_task ''1700000000123abcdefghi'' ''2023-11-14T23:00:00.000Z'' ?w)"
  have f: "findIndex (\<lambda>t. task_id t = ''1700000000123abcdefghi'') (collection ?w) = Some 1"
    by (simp add: buy_milk_def walk_dog_def)
  have s: "save_ok ?w" by simp
  have s1: "save_ok ?w1"
    using put_task_saved [OF f s, of "''2023-11-14T23:00:00.000Z''"]
    by (simp add: save_ok_def stored_def)
  have c: "completed (collection ?w ! 1)"
    by (simp add: walk_dog_def)
  from put_task_twice [OF f s surjective_pairing s1 surjective_pairing,
      of "''2023-11-14T23:30:00.000Z''"] c
  show ?thesis by simp
qed

subsection \<open>Delete\<close>

lemma filter_out_the_one:
  assumes "distinct (map f (xs @ t # ys))"
  shows "filter (\<lambda>x. f x \<noteq> f t) (xs @ t # ys) = xs @ ys"
proof -
  from assms have "f t \<notin> f ` set xs" and "f t \<notin> f ` set ys"
    by auto
  then have "\<forall>x\<in>set xs. f x \<noteq> f t" and "\<forall>y\<in>set ys. f y \<noteq> f t"
    by (metis imageI)+
  then show ?thesis by simp
qed

lemma delete_task_summary:
  "delete_task (task_id buy_milk) (stored [buy_milk, walk_dog]) =
     (\<lparr>status = 200, body = JObj
         [(''message'', JStr ''Task deleted successfully''),
          (''deletedId'', JStr (task_id buy_milk)),
          (''remainingTasks'', JNum 1)]\<rparr>,
      \<lparr>tasks_file = Present (Doc [walk_dog]), wfaults = [], writes = 1\<rparr>)"
proof -
  have "task_id buy_milk \<in> set (ids (collection (stored [buy_milk, walk_dog])))"
    by (simp add: ids_def)
  from delete_task_saved [OF this save_ok_stored] show ?thesis
    by (simp add: buy_milk_def walk_dog_def) (simp add: stored_def)
qed

text \<open>
  Claim C2, as it is written, fails: the summary a Delete answers with has the fields
  \<open>message\<close>, \<open>deletedId\<close> and \<open>remainingTasks\<close>, and no field \<open>remainingCount\<close>.
\<close>

theorem delete_task_has_no_remainingCount:
  "status (fst (delete_task (task_id buy_milk) (stored [buy_milk, walk_dog]))) = 200
   \<and> field ''remainingCount'' (body (fst (delete_task (task_id buy_milk)
         (stored [buy_milk, walk_dog])))) = None
   \<and> field ''remainingTasks'' (body (fst (delete_task (task_id buy_milk)
         (stored [buy_milk, walk_dog])))) = Some (JNum 1)"
  by (simp add: delete_task_summary)

text \<open>
  Claim C2, amended. In a Collection whose ids are distinct, a Delete of an id it holds
  that is saved removes one task, the one with that id, and keeps the others in their
  order; the Collection is one shorter; the answer is 200 with \<open>message\<close>, \<open>deletedId\<close>
  (the id) and \<open>remainingTasks\<close> (the number of tasks left); and a second Delete of the
  same id answers 404.
\<close>

theorem delete_task_removes_one:
  assumes "distinct (ids (collection w))" and "ident \<in> set (ids (collection w))"
    and "save_ok w" and "delete_task ident w = (r, w1)"
  shows "(\<exists>xs t ys. collection w = xs @ t # ys \<and> task_id t = ident \<and> collection w1 = xs @ ys)
    \<and> Suc (length (collection w1)) = length (collection w)
    \<and> r = \<lparr>status = 200, body = JObj
          [(''message'', JStr ''Task deleted successfully''),
           (''deletedId'', JStr ident),
           (''remainingTasks'', JNum (int (length (collection w1))))]\<rparr>
    \<and> fst (delete_task ident w1) =
          \<lparr>status = 404, body = JObj [(''error'', JStr ''Task not found'')]\<rparr>"
proof -
  from assms(2) obtain t where "t \<in> set (collection w)" and t: "task_id t = ident"
    by (auto simp: ids_def)
  then obtain xs ys where split: "collection w = xs @ t # ys"
    by (auto dest: split_list)
  from delete_task_saved [OF assms(2,3)] assms(4)
  have r: "r = \<lparr>status = 200, body = JObj
          [(''message'', JStr ''Task deleted successfully''),
           (''deletedId'', JStr ident),
           (''remainingTasks'',
              JNum (int (length (filter (\<lambda>t. task_id t \<noteq> ident) (collection w)))))]\<rparr>"
    and c: "collection w1 = filter (\<lambda>t. task_id t \<noteq> ident) (collection w)"
    and l: "loads_array w1"
    by (auto simp: collection_file)
  from assms(1) have "filter (\<lambda>x. task_id x \<noteq> task_id t) (xs @ t # ys) = xs @ ys"
    unfolding ids_def split by (rule filter_out_the_one)
  with c t split have c': "collection w1 = xs @ ys"
    by simp
  from c have "ident \<notin> set (ids (collection w1))"
    by (auto simp: ids_def)
  with l have again: "delete_task ident w1 = (notFound, snd (readTasks w1))"
    by (rule delete_task_unknown)
  from split t c' have "\<exists>xs t ys. collection w = xs @ t # ys \<and> task_id t = ident
      \<and> collection w1 = xs @ ys"
    by blast
  moreover from split c' have "Suc (length (collection w1)) = length (collection w)"
    by simp
  moreover from r c have "r = \<lparr>status = 200, body = JObj
          [(''message'', JStr ''Task deleted successfully''),
           (''deletedId'', JStr ident),
           (''remainingTasks'', JNum (int (length (collection w1))))]\<rparr>"
    by simp
  moreover from again have "fst (delete_task ident w1) =
          \<lparr>status = 404, body = JObj [(''error'', JStr ''Task not found'')]\<rparr>"
    by (simp add: notFound_def)
  ultimately show ?thesis by blast
qed

theorem delete_task_removes_one_witness:
  "collection (snd (delete_task (task_id buy_milk) (stored [buy_milk, walk_dog]))) = [walk_dog]
   \<and> fst (delete_task (task_id buy_milk) (stored [buy_milk, walk_dog])) =
       \<lparr>status = 200, body = JObj
          [(''message'', JStr ''Task deleted successfully''),
           (''deletedId'', JStr (task_id buy_milk)),
           (''remainingTasks'', JNum 1)]\<rparr>
   \<and> fst (delete_task (task_id buy_milk)
        (snd (delete_task (task_id buy_milk) (stored [buy_milk, walk_dog])))) =
       \<lparr>status = 404, body = JObj [(''error'', JStr ''Task not found'')]\<rparr>"
proof -
  let ?w = "stored [buy_milk, walk_dog]"
  have d: "distinct (ids (collection ?w))"
    by (simp add: ids_def buy_milk_def walk_dog_def)
  have m: "task_id buy_milk \<in> set (ids (collection ?w))"
    by (simp add: ids_def)
  from delete_task_removes_one [OF d m save_ok_stored surjective_pairing]
  show ?thesis
    by (simp add: delete_task_summary collection_file)
qed

subsection \<open>ClearCompleted\<close>

lemma clear_completed_summary:
  "clear_completed (stored [buy_milk, walk_dog]) =
     (\<lparr>status = 200, body = JObj
         [(''message'', JStr ''Completed tasks cleared successfully''),
          (''cleared'', JNum 1),
          (''remaining'', JNum 1)]\<rparr>,
      \<lparr>tasks_file = Present (Doc [buy_milk]), wfaults = [], writes = 1\<rparr>)"
proof -
  have "\<exists>t\<in>set (collection (stored [buy_milk, walk_dog])). completed t"
    by (simp add: walk_dog_def)
  from clear_completed_saved [OF this save_ok_stored] show ?thesis
    by (simp add: buy_milk_def walk_dog_def) (simp add: stored_def)
qed

text \<open>
  Claim C4, as it is written, fails: the summary a ClearCompleted answers with has the
  fields \<open>message\<close>, \<open>cleared\<close> and \<open>remaining\<close>, and neither \<open>clearedCount\<close> nor
  \<open>remainingCount\<close>.
\<close>

theorem clear_completed_has_no_clearedCount:
  "status (fst (clear_completed (stored [buy_milk, walk_dog]))) = 200
   \<and> field ''clearedCount'' (body (fst (clear_completed (stored [buy_milk, walk_dog])))) = None
   \<and> field ''remainingCount'' (body (fst (clear_completed (stored [buy_milk, walk_dog])))) = None
   \<and> field ''cleared'' (body (fst (clear_completed (stored [buy_milk, walk_dog])))) =
        Some (JNum 1)
   \<and> field ''remaining'' (body (fst (clear_completed (stored [buy_milk, walk_dog])))) =
        Some (JNum 1)"
  by (simp add: clear_completed_summary)

text \<open>
  Claim C4, amended. In a Collection with a completed task, a ClearCompleted that is saved
  leaves the tasks that are not completed, in their order, none of them completed; their
  number and the number of completed tasks add up to the number of tasks there were; and
  the answer is 200 with \<open>message\<close>, \<open>cleared\<close> (the number of completed tasks) and
  \<open>remaining\<close> (the number of tasks left).
\<close>

theorem clear_completed_leaves_active:
  assumes "\<exists>t\<in>set (collection w). completed t"
    and "save_ok w" and "clear_completed w = (r, w1)"
  shows "collection w1 = filter (\<lambda>t. \<not> completed t) (collection w)
    \<and> (\<forall>t\<in>set (collection w1). \<not> completed t)
    \<and> length (filter (\<lambda>t. completed t) (collection w)) + length (collection w1) =
        length (collection w)
    \<and> 0 < length (filter (\<lambda>t. completed t) (collection w))
    \<and> r = \<lparr>status = 200, body = JObj
          [(''message'', JStr ''Completed tasks cleared successfully''),
           (''cleared'', JNum (int (length (filter (\<lambda>t. completed t) (collection w))))),
           (''remaining'', JNum (int (length (collection w1))))]\<rparr>"
proof -
  from clear_completed_saved [OF assms(1,2)] assms(3)
  have r: "r = \<lparr>status = 200, body = JObj
          [(''message'', JStr ''Completed tasks cleared successfully''),
           (''cleared'', JNum (int (length (filter (\<lambda>t. completed t) (collection w))))),
           (''remaining'',
              JNum (int (length (filter (\<lambda>t. \<not> completed t) (collection w)))))]\<rparr>"
    and c: "collection w1 = filter (\<lambda>t. \<not> completed t) (collection w)"
    by (auto simp: collection_file)
  have n: "length (filter (\<lambda>t. completed t) (collection w)) + length (collection w1) =
        length (collection w)"
    unfolding c by (rule sum_length_filter_compl)
  from assms(1) have p: "0 < length (filter (\<lambda>t. completed t) (collection w))"
    by (simp add: filter_empty_conv)
  from c have a: "\<forall>t\<in>set (collection w1). \<not> completed t"
    by simp
  from r c have r': "r = \<lparr>status = 200, body = JObj
          [(''message'', JStr ''Completed tasks cleared successfully''),
           (''cleared'', JNum (int (length (filter (\<lambda>t. completed t) (collection w))))),
           (''remaining'', JNum (int (length (collection w1))))]\<rparr>"
    by simp
  from c a n p r' show ?thesis by blast
qed

theorem clear_completed_leaves_active_witness:
  "collection (snd (clear_completed (stored [buy_milk, walk_dog]))) = [buy_milk]
   \<and> fst (clear_completed (stored [buy_milk, walk_dog])) =
       \<lparr>status = 200, body = JObj
          [(''message'', JStr ''Completed tasks cleared successfully''),
           (''cleared'', JNum 1),
           (''remaining'', JNum 1)]\<rparr>"
proof -
  have "\<exists>t\<in>set (collection (stored [buy_milk, walk_dog])). completed t"
    by (simp add: walk_dog_def)
  from clear_completed_leaves_active [OF this save_ok_stored surjective_pairing]
  show ?thesis
    by (simp add: buy_milk_def walk_dog_def)
qed

subsection \<open>Failures of the store\<close>

lemma known_findIndex:
  assumes "ident \<in> set (ids ts)"
  shows "\<exists>i. findIndex (\<lambda>t. task_id t = ident) ts = Some i"
proof -
  from assms have "\<not> (\<forall>t\<in>set ts. \<not> task_id t = ident)"
    by (auto simp: ids_def)
  then have "findIndex (\<lambda>t. task_id t = ident) ts \<noteq> None"
    by (simp add: findIndex_None)
  then show ?thesis by blast
qed

lemma not_loads_array: "\<not> loads_array w \<Longrightarrow> \<exists>v. tasks_file w = Present (Other v)"
  by (simp add: loads_array_file split: file_state.splits content.splits)

text \<open>
  The answer 500 of List is not dead code: \<^verbatim>\<open>readTasks\<close> passes on a value that is not an
  array, and reading \<^verbatim>\<open>tasks.length\<close> of \<^verbatim>\<open>null\<close> throws in the route.
\<close>

lemma get_tasks_null:
  "tasks_file w = Present (Other NNull) \<Longrightarrow>
   get_tasks w = (failed ''Failed to fetch tasks'' (nullProperty ''length''), w)"
  by (simp add: get_tasks_def readTasks_other)

lemma get_tasks_failed_load:
  assumes "tasks_file w = Unreadable e \<or> tasks_file w = Present Blank
    \<or> tasks_file w = Present (Garbage e)"
  shows "get_tasks w = (\<lparr>status = 200, body = JArr []\<rparr>, w)"
proof -
  from assms have "tasks_file w \<noteq> Missing" and "loads_array w" and "collection w = []"
    by (auto simp: loads_array_file collection_file)
  then show ?thesis
    by (simp add: get_tasks_def readTasks_present)
qed

text \<open>
  Claim C3, as it is written, fails: when \<^verbatim>\<open>fs.readFile\<close> rejects (here with a permission
  error), List answers 200 with an empty array.
\<close>

theorem get_tasks_swallows_read_error:
  "get_tasks \<lparr>tasks_file = Unreadable ''EACCES: permission denied'', wfaults = [], writes = 0\<rparr> =
     (\<lparr>status = 200, body = JArr []\<rparr>,
      \<lparr>tasks_file = Unreadable ''EACCES: permission denied'', wfaults = [], writes = 0\<rparr>)"
  by (simp add: get_tasks_def readTasks_def readTasks_try_def fs_access_def fs_readFile_def)

text \<open>
  Claim C3, amended. \<^verbatim>\<open>readTasks\<close> never throws. A failure inside the load is not
  surfaced: when the tasks file is missing (whether the write that creates it resolves or
  not), cannot be read, is blank or is not JSON, List answers 200 with an empty array;
  when it is an array of tasks, List answers 200 with them. A save that is rejected is
  answered by 500 with \<open>error\<close>, the text of the route, and \<open>details\<close>, the message of
  the rejection: in Add with a valid text, in Toggle and Delete of an id the Collection
  holds, and in ClearCompleted when a task is completed.
\<close>

theorem store_failures:
  "(\<exists>p w1. readTasks w = (Inr p, w1))
   \<and> (tasks_file w = Missing \<longrightarrow>
        get_tasks w = (\<lparr>status = 200, body = JArr []\<rparr>, snd (fs_writeFile [] w)))
   \<and> (tasks_file w = Unreadable m \<longrightarrow> get_tasks w = (\<lparr>status = 200, body = JArr []\<rparr>, w))
   \<and> (tasks_file w = Present Blank \<longrightarrow> get_tasks w = (\<lparr>status = 200, body = JArr []\<rparr>, w))
   \<and> (tasks_file w = Present (Garbage m) \<longrightarrow>
        get_tasks w = (\<lparr>status = 200, body = JArr []\<rparr>, w))
   \<and> (tasks_file w = Present (Doc ts) \<longrightarrow>
        get_tasks w = (\<lparr>status = 200, body = JArr (map task_json ts)\<rparr>, w))
   \<and> (valid_text text \<longrightarrow> loads_array w \<longrightarrow> wfaults (snd (readTasks w)) = Some e # fs \<longrightarrow>
        fst (post_tasks text r w) = \<lparr>status = 500, body = JObj
          [(''error'', JStr ''Failed to add task''), (''details'', JStr e)]\<rparr>)
   \<and> (ident \<in> set (ids (collection w)) \<longrightarrow> wfaults w = Some e # fs \<longrightarrow>
        fst (put_task ident now w) = \<lparr>status = 500, body = JObj
          [(''error'', JStr ''Failed to update task''), (''details'', JStr e)]\<rparr>
      \<and> fst (delete_task ident w) = \<lparr>status = 500, body = JObj
          [(''error'', JStr ''Failed to delete task''), (''details'', JStr e)]\<rparr>)
   \<and> ((\<exists>t\<in>set (collection w). completed t) \<longrightarrow> wfaults w = Some e # fs \<longrightarrow>
        fst (clear_completed w) = \<lparr>status = 500, body = JObj
          [(''error'', JStr ''Failed to clear completed tasks''), (''details'', JStr e)]\<rparr>)"
proof -
  have load: "\<exists>p w1. readTasks w = (Inr p, w1)"
    by (rule readTasks_total)
  have missing: "get_tasks w = (\<lparr>status = 200, body = JArr []\<rparr>, snd (fs_writeFile [] w))"
    if "tasks_file w = Missing"
    using that by (simp add: get_tasks_def readTasks_missing)
  have unreadable: "get_tasks w = (\<lparr>status = 200, body = JArr []\<rparr>, w)"
    if "tasks_file w = Unreadable m"
    using that by (intro get_tasks_failed_load [of w m]) simp
  have blank: "get_tasks w = (\<lparr>status = 200, body = JArr []\<rparr>, w)"
    if "tasks_file w = Present Blank"
    using that by (intro get_tasks_failed_load [of w m]) simp
  have garbage: "get_tasks w = (\<lparr>status = 200, body = JArr []\<rparr>, w)"
    if "tasks_file w = Present (Garbage m)"
    using that by (intro get_tasks_failed_load [of w m]) simp
  have doc: "get_tasks w = (\<lparr>status = 200, body = JArr (map task_json ts)\<rparr>, w)"
    if "tasks_file w = Present (Doc ts)"
  proof -
    from that have "tasks_file w \<noteq> Missing" and "loads_array w" and "collection w = ts"
      by (simp_all add: loads_array_file collection_file)
    then show ?thesis
      by (simp add: get_tasks_def readTasks_present)
  qed
  have add: "fst (post_tasks text r w) = \<lparr>status = 500, body = JObj
          [(''error'', JStr ''Failed to add task''), (''details'', JStr e)]\<rparr>"
    if "valid_text text" and "loads_array w" and "wfaults (snd (readTasks w)) = Some e # fs"
    using post_tasks_rejected [OF that(1) that(3) that(2), of r] by (simp add: failed_def)
  have toggle: "fst (put_task ident now w) = \<lparr>status = 500, body = JObj
          [(''error'', JStr ''Failed to update task''), (''details'', JStr e)]\<rparr>"
    if "ident \<in> set (ids (collection w))" and f: "wfaults w = Some e # fs"
  proof -
    from known_findIndex [OF that(1)] obtain i
      where "findIndex (\<lambda>t. task_id t = ident) (collection w) = Some i" ..
    from put_task_rejected [OF this f, of now] show ?thesis
      by (simp add: failed_def)
  qed
  have delete: "fst (delete_task ident w) = \<lparr>status = 500, body = JObj
          [(''error'', JStr ''Failed to delete task''), (''details'', JStr e)]\<rparr>"
    if "ident \<in> set (ids (collection w))" and "wfaults w = Some e # fs"
    using delete_task_rejected [OF that] by (simp add: failed_def)
  have clear: "fst (clear_completed w) = \<lparr>status = 500, body = JObj
          [(''error'', JStr ''Failed to clear completed tasks''), (''details'', JStr e)]\<rparr>"
    if "\<exists>t\<in>set (collection w). completed t" and "wfaults w = Some e # fs"
    using clear_completed_rejected [OF that] by (simp add: failed_def)
  from load missing unreadable blank garbage doc add toggle delete clear show ?thesis
    by blast
qed

theorem store_failures_witness:
  "get_tasks no_file = (\<lparr>status = 200, body = JArr []\<rparr>, snd (fs_writeFile [] no_file))
   \<and> get_tasks \<lparr>tasks_file = Unreadable ''EACCES'', wfaults = [], writes = 0\<rparr> =
       (\<lparr>status = 200, body = JArr []\<rparr>,
        \<lparr>tasks_file = Unreadable ''EACCES'', wfaults = [], writes = 0\<rparr>)
   \<and> get_tasks \<lparr>tasks_file = Present Blank, wfaults = [], writes = 0\<rparr> =
       (\<lparr>status = 200, body = JArr []\<rparr>,
        \<lparr>tasks_file = Present Blank, wfaults = [], writes = 0\<rparr>)
   \<and> get_tasks \<lparr>tasks_file = Present (Garbage ''Unexpected token''), wfaults = [], writes = 0\<rparr> =
       (\<lparr>status = 200, body = JArr []\<rparr>,
        \<lparr>tasks_file = Present (Garbage ''Unexpected token''), wfaults = [], writes = 0\<rparr>)
   \<and> get_tasks (stored [buy_milk]) =
       (\<lparr>status = 200, body = JArr [task_json buy_milk]\<rparr>, stored [buy_milk])
   \<and> fst (post_tasks (Some (JStr ''feed cat'')) at_noon
        \<lparr>tasks_file = Present (Doc [buy_milk, walk_dog]), wfaults = [Some ''ENOSPC''], writes = 0\<rparr>) =
       \<lparr>status = 500, body = JObj
          [(''error'', JStr ''Failed to add task''), (''details'', JStr ''ENOSPC'')]\<rparr>
   \<and> fst (put_task (task_id walk_dog) ''2023-11-14T23:00:00.000Z''
        \<lparr>tasks_file = Present (Doc [buy_milk, walk_dog]), wfaults = [Some ''ENOSPC''], writes = 0\<rparr>) =
       \<lparr>status = 500, body = JObj
          [(''error'', JStr ''Failed to update task''), (''details'', JStr ''ENOSPC'')]\<rparr>
   \<and> fst (delete_task (task_id walk_dog)
        \<lparr>tasks_file = Present (Doc [buy_milk, walk_dog]), wfaults = [Some ''ENOSPC''], writes = 0\<rparr>) =
       \<lparr>status = 500, body = JObj
          [(''error'', JStr ''Failed to delete task''), (''details'', JStr ''ENOSPC'')]\<rparr>
   \<and> fst (clear_completed
        \<lparr>tasks_file = Present (Doc [buy_milk, walk_dog]), wfaults = [Some ''ENOSPC''], writes = 0\<rparr>) =
       \<lparr>status = 500, body = JObj
          [(''error'', JStr ''Failed to clear completed tasks''), (''details'', JStr ''ENOSPC'')]\<rparr>"
proof -
  let ?u = "\<lparr>tasks_file = Unreadable ''EACCES'', wfaults = [], writes = 0\<rparr>"
  let ?b = "\<lparr>tasks_file = Present Blank, wfaults = [], writes = 0\<rparr>"
  let ?g = "\<lparr>tasks_file = Present (Garbage ''Unexpected token''), wfaults = [], writes = 0\<rparr>"
  let ?w = "\<lparr>tasks_file = Present (Doc [buy_milk, walk_dog]), wfaults = [Some ''ENOSPC''],
    writes = 0\<rparr>"
  have fm: "tasks_file no_file = Missing"
    by (simp add: no_file_def)
  have fu: "tasks_file ?u = Unreadable ''EACCES''" and fb: "tasks_file ?b = Present Blank"
    and fg: "tasks_file ?g = Present (Garbage ''Unexpected token'')"
    and fd: "tasks_file (stored [buy_milk]) = Present (Doc [buy_milk])"
    by (simp_all add: stored_def)
  have c: "collection ?w = [buy_milk, walk_dog]" and l: "snd (readTasks ?w) = ?w"
    and a: "loads_array ?w"
    by (simp_all add: collection_file load_keeps_present loads_array_file)
  have v: "valid_text (Some (JStr ''feed cat''))"
    by (simp add: trim_def isWhiteSpace_def)
  have m: "task_id walk_dog \<in> set (ids (collection ?w))"
    by (simp add: c ids_def)
  have "completed walk_dog"
    by (simp add: walk_dog_def)
  then have d: "\<exists>t\<in>set (collection ?w). completed t"
    by (simp add: c)
  have f: "wfaults ?w = Some ''ENOSPC'' # []" "wfaults (snd (readTasks ?w)) = Some ''ENOSPC'' # []"
    by (simp_all add: l)
  from store_failures [of no_file] fm
  have 1: "get_tasks no_file = (\<lparr>status = 200, body = JArr []\<rparr>, snd (fs_writeFile [] no_file))"
    by blast
  from store_failures [of ?u "''EACCES''"] fu
  have 2: "get_tasks ?u = (\<lparr>status = 200, body = JArr []\<rparr>, ?u)"
    by blast
  from store_failures [of ?b] fb
  have 3: "get_tasks ?b = (\<lparr>status = 200, body = JArr []\<rparr>, ?b)"
    by blast
  from store_failures [of ?g "''Unexpected token''"] fg
  have 4: "get_tasks ?g = (\<lparr>status = 200, body = JArr []\<rparr>, ?g)"
    by blast
  from store_failures [of "stored [buy_milk]" _ "[buy_milk]"] fd
  have 5: "get_tasks (stored [buy_milk]) =
       (\<lparr>status = 200, body = JArr [task_json buy_milk]\<rparr>, stored [buy_milk])"
    by simp
  from store_failures [of ?w _ _ "Some (JStr ''feed cat'')" "''ENOSPC''" "[]" at_noon
      "task_id walk_dog" "''2023-11-14T23:00:00.000Z''"] v a m d f
  have "fst (post_tasks (Some (JStr ''feed cat'')) at_noon ?w) =
       \<lparr>status = 500, body = JObj
          [(''error'', JStr ''Failed to add task''), (''details'', JStr ''ENOSPC'')]\<rparr>"
    and "fst (put_task (task_id walk_dog) ''2023-11-14T23:00:00.000Z'' ?w) =
       \<lparr>status = 500, body = JObj
          [(''error'', JStr ''Failed to update task''), (''details'', JStr ''ENOSPC'')]\<rparr>"
    and "fst (delete_task (task_id walk_dog) ?w) =
       \<lparr>status = 500, body = JObj
          [(''error'', JStr ''Failed to delete task''), (''details'', JStr ''ENOSPC'')]\<rparr>"
    and "fst (clear_completed ?w) =
       \<lparr>status = 500, body = JObj
          [(''error'', JStr ''Failed to clear completed tasks''), (''details'', JStr ''ENOSPC'')]\<rparr>"
    by blast+
  with 1 2 3 4 5 show ?thesis by blast
qed

subsection \<open>Distinct ids\<close>

lemma ids_toggled: "i < length ts \<Longrightarrow> ids (ts[i := toggled now (ts ! i)]) = ids ts"
  by (simp add: ids_def map_update list_update_same_conv)

lemma distinct_ids_filter: "distinct (ids ts) \<Longrightarrow> distinct (ids (filter P ts))"
  by (simp add: ids_def distinct_map_filter)

lemma put_task_distinct:
  assumes "distinct (ids (collection w))"
  shows "distinct (ids (collection (snd (put_task ident now w))))"
proof (cases "loads_array w")
  case False
  then obtain v where "tasks_file w = Present (Other v)"
    using not_loads_array by blast
  from put_task_other [OF this, of ident now] assms show ?thesis
    by simp
next
  case True
  show ?thesis
  proof (cases "findIndex (\<lambda>t. task_id t = ident) (collection w)")
    case None
    from put_task_unknown [OF True None, of now] assms show ?thesis
      by (simp add: collection_after_load)
  next
    case (Some i)
    from findIndex_Some [OF Some] have "i < length (collection w)" by simp
    with assms show ?thesis
      by (simp add: put_task_collection [OF Some] ids_toggled)
  qed
qed

lemma delete_task_distinct:
  assumes "distinct (ids (collection w))"
  shows "distinct (ids (collection (snd (delete_task ident w))))"
proof (cases "loads_array w")
  case False
  then obtain v where "tasks_file w = Present (Other v)"
    using not_loads_array by blast
  from delete_task_other [OF this, of ident] assms show ?thesis
    by simp
next
  case array: True
  show ?thesis
  proof (cases "ident \<in> set (ids (collection w))")
    case False
    from delete_task_unknown [OF array False] assms show ?thesis
      by (simp add: collection_after_load)
  next
    case True
    from writeTasks_cases [of w] show ?thesis
    proof
      assume "save_ok w"
      from delete_task_saved [OF True this] assms show ?thesis
        by (simp add: collection_file distinct_ids_filter)
    next
      assume "\<exists>e fs. wfaults w = Some e # fs"
      then obtain e fs where "wfaults w = Some e # fs" by blast
      from delete_task_rejected [OF True this] assms show ?thesis
        by simp
    qed
  qed
qed

lemma clear_completed_distinct:
  assumes "distinct (ids (collection w))"
  shows "distinct (ids (collection (snd (clear_completed w))))"
proof (cases "loads_array w")
  case False
  then obtain v where "tasks_file w = Present (Other v)"
    using not_loads_array by blast
  from clear_completed_other [OF this] assms show ?thesis
    by simp
next
  case array: True
  show ?thesis
  proof (cases "\<exists>t\<in>set (collection w). completed t")
    case False
    then have "\<forall>t\<in>set (collection w). \<not> completed t" by blast
    from clear_completed_none [OF array this] assms show ?thesis
      by (simp add: collection_after_load)
  next
    case True
    from writeTasks_cases [of w] show ?thesis
    proof
      assume "save_ok w"
      from clear_completed_saved [OF True this] assms show ?thesis
        by (simp add: collection_file distinct_ids_filter)
    next
      assume "\<exists>e fs. wfaults w = Some e # fs"
      then obtain e fs where "wfaults w = Some e # fs" by blast
      from clear_completed_rejected [OF True this] assms show ?thesis
        by simp
    qed
  qed
qed

lemma post_tasks_distinct:
  assumes "distinct (ids (collection w))"
  shows "distinct (ids (collection (snd (post_tasks text r w)))) \<longleftrightarrow>
    (status (fst (post_tasks text r w)) = 201 \<longrightarrow>
       task_id (newTask (chars text) r) \<notin> set (ids (collection w)))"
proof (cases "valid_text text")
  case False
  from post_tasks_invalid [OF False, of r w] assms show ?thesis
    by simp
next
  case True
  show ?thesis
  proof (cases "loads_array w")
    case False
    then obtain v where "tasks_file w = Present (Other v)"
      using not_loads_array by blast
    from post_tasks_other [OF True this, of r] assms show ?thesis
      by (simp add: failed_def)
  next
    case array: True
    from writeTasks_cases [of "snd (readTasks w)"] show ?thesis
    proof
      assume "save_ok (snd (readTasks w))"
      from post_tasks_saved [OF \<open>valid_text text\<close> this array, of r] assms show ?thesis
        by (simp add: collection_file ids_def)
    next
      assume "\<exists>e fs. wfaults (snd (readTasks w)) = Some e # fs"
      then obtain e fs where "wfaults (snd (readTasks w)) = Some e # fs" by blast
      from post_tasks_rejected [OF \<open>valid_text text\<close> this array, of r] assms show ?thesis
        by (simp add: failed_def collection_after_load)
    qed
  qed
qed

lemma post_tasks_again:
  "snd (post_tasks (Some (JStr '' walk dog '')) at_noon
     \<lparr>tasks_file = Present (Doc [buy_milk,
      \<lparr>task_id = ''1700000000000k3j9x0q1z'', task_text = ''walk dog'', completed = False,
       createdAt = ''2023-11-14T22:13:20.000Z'', updatedAt = ''2023-11-14T22:13:20.001Z''\<rparr>]),
    wfaults = [], writes = 1\<rparr>) =
   \<lparr>tasks_file = Present (Doc [buy_milk,
      \<lparr>task_id = ''1700000000000k3j9x0q1z'', task_text = ''walk dog'', completed = False,
       createdAt = ''2023-11-14T22:13:20.000Z'', updatedAt = ''2023-11-14T22:13:20.001Z''\<rparr>,
      \<lparr>task_id = ''1700000000000k3j9x0q1z'', task_text = ''walk dog'', completed = False,
       createdAt = ''2023-11-14T22:13:20.000Z'', updatedAt = ''2023-11-14T22:13:20.001Z''\<rparr>]),
    wfaults = [], writes = 2\<rparr>"
proof -
  let ?w1 = "\<lparr>tasks_file = Present (Doc [buy_milk,
      \<lparr>task_id = ''1700000000000k3j9x0q1z'', task_text = ''walk dog'', completed = False,
       createdAt = ''2023-11-14T22:13:20.000Z'', updatedAt = ''2023-11-14T22:13:20.001Z''\<rparr>]),
    wfaults = [], writes = 1\<rparr>"
  have v: "valid_text (Some (JStr '' walk dog ''))"
    by (simp add: trim_walk_dog)
  have n: "newTask '' walk dog '' at_noon =
    \<lparr>task_id = ''1700000000000k3j9x0q1z'', task_text = ''walk dog'', completed = False,
     createdAt = ''2023-11-14T22:13:20.000Z'', updatedAt = ''2023-11-14T22:13:20.001Z''\<rparr>"
    by (simp add: newTask_def at_noon_def date_digits trim_walk_dog)
  have s: "save_ok (snd (readTasks ?w1))"
    by (simp add: load_keeps_present save_ok_def)
  have a: "loads_array ?w1"
    by (simp add: loads_array_file)
  from post_tasks_saved [OF v s a, of at_noon] show ?thesis
    by (simp add: n load_keeps_present collection_file)
qed

text \<open>
  Claim C9, as it is written, fails for Add: the id is \<^verbatim>\<open>Date.now()\<close> in decimal followed
  by the random characters, and the route does not look for it in the Collection. Two
  Adds with the same reading of the clock and the same random characters: the Collection
  after the first has distinct ids, the Collection after the second has the id twice.
\<close>

theorem post_tasks_repeats_an_id:
  "distinct (ids (collection (snd (post_tasks (Some (JStr '' walk dog '')) at_noon
      (stored [buy_milk])))))
   \<and> \<not> distinct (ids (collection (snd (post_tasks (Some (JStr '' walk dog '')) at_noon
      (snd (post_tasks (Some (JStr '' walk dog '')) at_noon (stored [buy_milk])))))))"
proof -
  have "task_id buy_milk \<noteq> ''1700000000000k3j9x0q1z''"
    by (simp add: buy_milk_def)
  moreover have "snd (post_tasks (Some (JStr '' walk dog '')) at_noon (stored [buy_milk])) =
     \<lparr>tasks_file = Present (Doc [buy_milk,
      \<lparr>task_id = ''1700000000000k3j9x0q1z'', task_text = ''walk dog'', completed = False,
       createdAt = ''2023-11-14T22:13:20.000Z'', updatedAt = ''2023-11-14T22:13:20.001Z''\<rparr>]),
    wfaults = [], writes = 1\<rparr>"
    by (simp add: post_tasks_at_noon)
  ultimately show ?thesis
    by (simp only: post_tasks_again) (simp add: collection_file ids_def)
qed

text \<open>
  Claim C9, amended. From a Collection whose ids are distinct, Toggle, Delete and
  ClearCompleted leave a Collection whose ids are distinct, whatever they answer. Add
  leaves one exactly when it did not answer 201 or the id it made is not an id of the
  Collection.
\<close>

theorem ids_stay_distinct:
  assumes "distinct (ids (collection w))"
  shows "distinct (ids (collection (snd (put_task ident now w))))
    \<and> distinct (ids (collection (snd (delete_task ident w))))
    \<and> distinct (ids (collection (snd (clear_completed w))))
    \<and> (distinct (ids (collection (snd (post_tasks text r w)))) \<longleftrightarrow>
         (status (fst (post_tasks text r w)) = 201 \<longrightarrow>
            task_id (newTask (chars text) r) \<notin> set (ids (collection w))))"
  using put_task_distinct [OF assms] delete_task_distinct [OF assms]
    clear_completed_distinct [OF assms] post_tasks_distinct [OF assms]
  by blast

theorem ids_stay_distinct_witness:
  "distinct (ids (collection (snd (put_task (task_id walk_dog) ''2023-11-14T23:00:00.000Z''
      (stored [buy_milk, walk_dog])))))
   \<and> distinct (ids (collection (snd (delete_task (task_id walk_dog)
      (stored [buy_milk, walk_dog])))))
   \<and> distinct (ids (collection (snd (clear_completed (stored [buy_milk, walk_dog])))))
   \<and> distinct (ids (collection (snd (post_tasks (Some (JStr '' walk dog '')) at_noon
      (stored [buy_milk])))))"
proof -
  have d2: "distinct (ids (collection (stored [buy_milk, walk_dog])))"
    by (simp add: ids_def buy_milk_def walk_dog_def)
  have d1: "distinct (ids (collection (stored [buy_milk])))"
    by (simp add: ids_def)
  have fresh: "task_id (newTask (chars (Some (JStr '' walk dog ''))) at_noon) \<notin>
      set (ids (collection (stored [buy_milk])))"
    by (simp add: newTask_def at_noon_def date_digits ids_def buy_milk_def)
  from ids_stay_distinct [OF d2, of "task_id walk_dog" "''2023-11-14T23:00:00.000Z''"]
    ids_stay_distinct [OF d1, of _ _ "Some (JStr '' walk dog '')" at_noon] fresh
  show ?thesis by blast
qed

end
